theory Spec2Isabelle
  imports Main "HOL-Library.Char_ord" "HOL-Library.List_Lexorder"
begin

section \<open>Scoring engine\<close>

text \<open>
  The questionnaire scoring functions of \<^verbatim>\<open>main2.py\<close> (lines 501-532). Python integers
  are unbounded, so answers and scores are \<^typ>\<open>int\<close>. The builtin \<^verbatim>\<open>sum\<close> adds the
  items from the left, starting at 0.
\<close>

definition py_sum :: "int list \<Rightarrow> int" where
  "py_sum xs = foldl (+) 0 xs"

definition calculate_phq9_score :: "int list \<Rightarrow> int \<times> string \<times> string" where
  "calculate_phq9_score answers =
     (let score = py_sum answers in
      if score \<le> 4 then
        (score, ''None-minimal'', ''None'')
      else if score \<le> 9 then
        (score, ''Mild'', ''Watchful waiting; repeat PHQ-9 at follow-up'')
      else if score \<le> 14 then
        (score, ''Moderate'',
         ''Treatment plan, considering counseling, follow-up and/or pharmacotherapy'')
      else if score \<le> 19 then
        (score, ''Moderately Severe'',
         ''Active treatment with pharmacotherapy and/or psychotherapy'')
      else
        (score, ''Severe'',
         ''Immediate initiation of pharmacotherapy and expedited referral to mental health specialist''))"

definition calculate_gad7_score :: "int list \<Rightarrow> int \<times> string" where
  "calculate_gad7_score answers =
     (let score = py_sum answers in
      if score \<le> 4 then (score, ''Minimal anxiety'')
      else if score \<le> 9 then (score, ''Mild anxiety'')
      else if score \<le> 14 then (score, ''Moderate anxiety'')
      else (score, ''Severe anxiety''))"

section \<open>Python values, exceptions and builtins\<close>

text \<open>
  Exceptions are values. \<open>OverflowError\<close>, \<open>ValueError\<close> and \<open>IndexError\<close> are raised by
  Python builtins; the other three are raised by the document store's driver:
  \<open>DuplicateKeyError\<close> by a unique index, \<open>ConnectionFailure\<close> when the store cannot be
  reached and \<open>OperationFailure\<close> when it rejects a read or a write (a rejection by a
  collection's schema validator is such a failure).
\<close>

datatype exn =
  OverflowError | ValueError | IndexError |
  DuplicateKeyError | ConnectionFailure | OperationFailure

text \<open>
  A \<^verbatim>\<open>datetime\<close> is the number of microseconds since 0001-01-01T00:00:00 UTC; the
  largest one, 9999-12-31T23:59:59.999999, is the last microsecond of day 3652059.
  \<^verbatim>\<open>timedelta(days=n)\<close> raises \<^verbatim>\<open>OverflowError\<close> when \<open>n\<close> exceeds 999999999 in
  magnitude, and adding a \<^verbatim>\<open>timedelta\<close> raises it when the result leaves the range.
\<close>

type_synonym datetime = int

definition us_per_day :: int where
  "us_per_day = 86400000000"

definition datetime_in_range :: "datetime \<Rightarrow> bool" where
  "datetime_in_range t = (0 \<le> t \<and> t < 3652059 * us_per_day)"

definition timedelta_days :: "int \<Rightarrow> exn + int" where
  "timedelta_days n = (if 999999999 < \<bar>n\<bar> then Inl OverflowError else Inr (n * us_per_day))"

definition datetime_add :: "datetime \<Rightarrow> int \<Rightarrow> exn + datetime" where
  "datetime_add t delta =
     (if datetime_in_range (t + delta) then Inr (t + delta) else Inl OverflowError)"

text \<open>
  Strings are lists of characters with codes 0 to 255. \<^verbatim>\<open>s.split('-')\<close> cuts at every
  separator and returns at least one piece; \<^verbatim>\<open>xs[i]\<close> raises \<^verbatim>\<open>IndexError\<close> out of
  range.
\<close>

fun py_split :: "char \<Rightarrow> string \<Rightarrow> string list" where
  "py_split sep [] = [[]]"
| "py_split sep (c # cs) =
     (if c = sep then [] # py_split sep cs
      else (case py_split sep cs of
              [] \<Rightarrow> [[c]]
            | seg # segs \<Rightarrow> (c # seg) # segs))"

definition py_index :: "'a list \<Rightarrow> nat \<Rightarrow> exn + 'a" where
  "py_index xs i = (if i < length xs then Inr (xs ! i) else Inl IndexError)"

text \<open>
  \<^verbatim>\<open>int(s)\<close> on a string, in base 10: the white space that \<^verbatim>\<open>int\<close> accepts around the
  text (the characters with codes 9 to 13, 32, 133 and 160) is dropped, one sign may lead,
  and the rest is decimal digits, where a single underscore may stand between two digits.
  Anything else raises \<^verbatim>\<open>ValueError\<close> (here \<open>None\<close>), and so does a text with more than
  4300 digits, the interpreter's limit \<^verbatim>\<open>sys.get_int_max_str_digits()\<close>.
\<close>

definition is_py_space :: "char \<Rightarrow> bool" where
  "is_py_space c = ((of_char c :: nat) \<in> {9, 10, 11, 12, 13, 32, 133, 160})"

definition is_digit :: "char \<Rightarrow> bool" where
  "is_digit c = (48 \<le> (of_char c :: nat) \<and> (of_char c :: nat) \<le> 57)"

definition digit_val :: "char \<Rightarrow> nat" where
  "digit_val c = of_char c - 48"

definition py_strip :: "string \<Rightarrow> string" where
  "py_strip s = rev (dropWhile is_py_space (rev (dropWhile is_py_space s)))"

fun scan_digits :: "bool \<Rightarrow> nat \<Rightarrow> string \<Rightarrow> nat option" where
  "scan_digits prev_digit acc [] = (if prev_digit then Some acc else None)"
| "scan_digits prev_digit acc (c # cs) =
     (if is_digit c then scan_digits True (10 * acc + digit_val c) cs
      else if c = CHR ''_'' \<and> prev_digit then scan_digits False acc cs
      else None)"

definition int_max_str_digits :: nat where
  "int_max_str_digits = 4300"

definition parse_digits :: "string \<Rightarrow> nat option" where
  "parse_digits body =
     (if int_max_str_digits < length (filter is_digit body) then None
      else scan_digits False 0 body)"

definition py_int :: "string \<Rightarrow> int option" where
  "py_int s =
     (case py_strip s of
        [] \<Rightarrow> None
      | c # cs \<Rightarrow>
          if c = CHR ''-'' then map_option (\<lambda>n. - int n) (parse_digits cs)
          else if c = CHR ''+'' then map_option int (parse_digits cs)
          else map_option int (parse_digits (c # cs)))"

text \<open>
  The format specification \<^verbatim>\<open>04d\<close>: the decimal digits of the number, filled with
  zeros on the left, after the sign, up to a width of four characters.
\<close>

definition digit_char :: "nat \<Rightarrow> char" where
  "digit_char d = char_of (48 + d)"

fun nat_digits :: "nat \<Rightarrow> string" where
  "nat_digits n = (if n < 10 then [digit_char n] else nat_digits (n div 10) @ [digit_char (n mod 10)])"

declare nat_digits.simps [simp del]

definition zfill :: "nat \<Rightarrow> string \<Rightarrow> string" where
  "zfill width s = replicate (width - length s) CHR ''0'' @ s"

definition format_04d :: "int \<Rightarrow> string" where
  "format_04d n =
     (if n < 0 then CHR ''-'' # zfill 3 (nat_digits (nat (- n)))
      else zfill 4 (nat_digits (nat n)))"

text \<open>
  An age arrives as an integer or as text; \<^verbatim>\<open>int(x)\<close> leaves an integer as it is and
  parses text. (Floating-point ages are not modelled.)
\<close>

datatype py_value = PyInt int | PyStr string

fun int_of_value :: "py_value \<Rightarrow> exn + int" where
  "int_of_value (PyInt n) = Inr n"
| "int_of_value (PyStr s) = (case py_int s of None \<Rightarrow> Inl ValueError | Some n \<Rightarrow> Inr n)"

section \<open>The document store\<close>

text \<open>
  A collection is the list of its documents in insertion order. Every call to the store
  takes the store's verdict for that call as its first argument: \<open>None\<close> when the store
  serves the call, \<open>Some e\<close> when it fails with \<open>e\<close>.

  The driver encodes a document as BSON once it has a connection and before the store
  sees it. A BSON date counts whole milliseconds, so a \<^verbatim>\<open>datetime\<close> loses its
  microseconds below the millisecond (\<open>bson_datetime\<close>); a BSON integer has at most 8
  bytes, and a larger one raises \<^verbatim>\<open>OverflowError\<close> (\<open>bson_int\<close>). \<open>insert_one\<close> takes the
  encoding of its documents as an argument, stores the encoded document, and enforces
  the unique indexes of the collection, given as the functions that read the indexed
  keys (lines 267 and 343 of \<^verbatim>\<open>main2.py\<close> create them on \<^verbatim>\<open>link_id\<close> and
  \<^verbatim>\<open>assessment_id\<close>). \<open>find_one\<close> returns the first document that matches, \<open>update_one\<close>
  changes the first document that matches and succeeds when none does, and
  \<open>find_one_sorted_desc\<close> returns a matching document whose sort key is greatest.
\<close>

definition bson_datetime :: "datetime \<Rightarrow> datetime" where
  "bson_datetime t = t - t mod 1000"

definition bson_int :: "int \<Rightarrow> bool" where
  "bson_int n = (- (2 ^ 63) \<le> n \<and> n < 2 ^ 63)"

definition insert_one ::
  "exn option \<Rightarrow> ('a \<Rightarrow> exn + 'a) \<Rightarrow> ('a \<Rightarrow> string) list \<Rightarrow> 'a list \<Rightarrow> 'a \<Rightarrow>
   exn + 'a list" where
  "insert_one fault encode unique_keys coll doc =
     (if fault = Some ConnectionFailure then Inl ConnectionFailure
      else
        (case encode doc of
           Inl e \<Rightarrow> Inl e
         | Inr stored \<Rightarrow>
             (case fault of
                Some e \<Rightarrow> Inl e
              | None \<Rightarrow>
                  if list_ex (\<lambda>k. k stored \<in> set (map k coll)) unique_keys
                  then Inl DuplicateKeyError
                  else Inr (coll @ [stored]))))"

definition find_one :: "exn option \<Rightarrow> ('a \<Rightarrow> bool) \<Rightarrow> 'a list \<Rightarrow> exn + 'a option" where
  "find_one fault query coll =
     (case fault of Some e \<Rightarrow> Inl e | None \<Rightarrow> Inr (List.find query coll))"

fun update_first :: "('a \<Rightarrow> bool) \<Rightarrow> ('a \<Rightarrow> 'a) \<Rightarrow> 'a list \<Rightarrow> 'a list" where
  "update_first query upd [] = []"
| "update_first query upd (x # xs) =
     (if query x then upd x # xs else x # update_first query upd xs)"

definition update_one ::
  "exn option \<Rightarrow> ('a \<Rightarrow> bool) \<Rightarrow> ('a \<Rightarrow> 'a) \<Rightarrow> 'a list \<Rightarrow> exn + 'a list" where
  "update_one fault query upd coll =
     (case fault of Some e \<Rightarrow> Inl e | None \<Rightarrow> Inr (update_first query upd coll))"

definition greatest_by :: "('a \<Rightarrow> 'k::linorder) \<Rightarrow> 'a list \<Rightarrow> 'a option" where
  "greatest_by key xs =
     (case xs of
        [] \<Rightarrow> None
      | x # rest \<Rightarrow> Some (foldl (\<lambda>best y. if key best < key y then y else best) x rest))"

definition find_one_sorted_desc ::
  "exn option \<Rightarrow> ('a \<Rightarrow> bool) \<Rightarrow> ('a \<Rightarrow> 'k::linorder) \<Rightarrow> 'a list \<Rightarrow> exn + 'a option" where
  "find_one_sorted_desc fault query key coll =
     (case fault of Some e \<Rightarrow> Inl e | None \<Rightarrow> Inr (greatest_by key (filter query coll)))"

section \<open>Data model\<close>

text \<open>
  A link document has the keys that \<open>create_link\<close> writes (lines 407-415); the \<^verbatim>\<open>_id\<close>
  that the driver adds to it is read by none of the operations and is left out.
  \<open>bson_link\<close> and \<open>bson_assessment\<close> are the encodings of the two kinds of document: the
  dates lose their microseconds, and an assessment with an integer of more than 8 bytes
  (the age, an answer or a score) is refused.
\<close>

record link =
  link_id :: string
  doctor_id :: string
  created_at :: datetime
  expires_at :: datetime
  used :: bool
  patient_email :: "string option"
  patient_name :: "string option"

record patient_info =
  name :: string
  age :: py_value
  gender :: string
  language :: string
  education :: string
  email :: string
  clinic :: string
  patient_id :: string
  medication :: string

record phq9_assessment =
  phq9_answers :: "int list"
  phq9_score :: int
  phq9_severity :: string
  phq9_action :: string

record gad7_assessment =
  gad7_answers :: "int list"
  gad7_score :: int
  gad7_severity :: string

text \<open>
  \<open>assessment_data\<close> is the dictionary the form assembles (lines 1058-1083);
  \<open>assessment\<close> is the stored document: that dictionary with the keys \<^verbatim>\<open>created_at\<close> and
  \<^verbatim>\<open>assessment_id\<close> set by \<open>save_assessment\<close> and the key \<^verbatim>\<open>_id\<close> set by the driver.
  The dictionary always has \<^verbatim>\<open>patient_info\<close> with an \<^verbatim>\<open>age\<close>, so the test of line
  464 is true and the age is always coerced.
\<close>

record assessment_data =
  patient_info :: patient_info
  audio_files :: "(string \<times> string) list"
  phq9_assessment :: phq9_assessment
  gad7_assessment :: gad7_assessment
  assessment_doctor_id :: string

record assessment =
  object_id :: string
  assessment_id :: string
  assessment_created_at :: datetime
  data :: assessment_data

text \<open>
  The world the operations run in: the two collections and the messages shown by
  \<^verbatim>\<open>st.error\<close>, each kept as the text before the exception and the exception.
\<close>

definition bson_link :: "link \<Rightarrow> exn + link" where
  "bson_link l =
     Inr (l\<lparr>created_at := bson_datetime (created_at l),
            expires_at := bson_datetime (expires_at l)\<rparr>)"

definition bson_assessment :: "assessment \<Rightarrow> exn + assessment" where
  "bson_assessment a =
     (let d = data a in
      if (case age (patient_info d) of PyInt n \<Rightarrow> bson_int n | PyStr s \<Rightarrow> True) \<and>
         list_all bson_int (phq9_answers (phq9_assessment d)) \<and>
         bson_int (phq9_score (phq9_assessment d)) \<and>
         list_all bson_int (gad7_answers (gad7_assessment d)) \<and>
         bson_int (gad7_score (gad7_assessment d))
      then Inr (a\<lparr>assessment_created_at := bson_datetime (assessment_created_at a)\<rparr>)
      else Inl OverflowError)"

record world =
  assessment_links :: "link list"
  assessments :: "assessment list"
  st_errors :: "(string \<times> exn) list"

definition init_world :: world where
  "init_world = \<lparr>assessment_links = [], assessments = [], st_errors = []\<rparr>"

definition st_error :: "string \<Rightarrow> exn \<Rightarrow> world \<Rightarrow> world" where
  "st_error msg e w = w\<lparr>st_errors := st_errors w @ [(msg, e)]\<rparr>"

section \<open>Assessment link manager\<close>

text \<open>
  \<open>AssessmentLink\<close> (lines 397-452). The clock reading \<open>now\<close>, the fresh
  \<^verbatim>\<open>str(uuid.uuid4())\<close> and the store's verdict are arguments. The computation of
  \<open>expires_at\<close> stands before the \<^verbatim>\<open>try\<close>, so its \<^verbatim>\<open>OverflowError\<close> leaves the function
  (\<open>Inl\<close>); an exception of the store is caught, reported through \<^verbatim>\<open>st.error\<close> and
  turned into the return value \<^verbatim>\<open>None\<close> (\<open>False\<close> for \<open>mark_link_used\<close>). The query of
  \<open>validate_link\<close> carries \<open>now\<close> as a BSON date as well; a stored \<open>expires_at\<close> is in whole
  milliseconds, and against such a date the comparison with the truncated \<open>now\<close> and the
  comparison with \<open>now\<close> agree (\<open>bson_datetime_less_aligned\<close>, \<open>run_links_aligned\<close>).
\<close>

definition create_link ::
  "world \<Rightarrow> datetime \<Rightarrow> string \<Rightarrow> exn option \<Rightarrow>
   string \<Rightarrow> int \<Rightarrow> string option \<Rightarrow> string option \<Rightarrow> exn + (string option \<times> world)" where
  "create_link w now uuid4 fault doctor expiry_days p_email p_name =
     (case timedelta_days expiry_days of
        Inl e \<Rightarrow> Inl e
      | Inr delta \<Rightarrow>
          (case datetime_add now delta of
             Inl e \<Rightarrow> Inl e
           | Inr expires \<Rightarrow>
               (let link_data = \<lparr>link_id = uuid4, doctor_id = doctor, created_at = now,
                                 expires_at = expires, used = False,
                                 patient_email = p_email, patient_name = p_name\<rparr>
                in case insert_one fault bson_link [link_id] (assessment_links w) link_data of
                     Inr coll \<Rightarrow> Inr (Some uuid4, w\<lparr>assessment_links := coll\<rparr>)
                   | Inl e \<Rightarrow> Inr (None, st_error ''Error creating assessment link: '' e w))))"

definition validate_link ::
  "world \<Rightarrow> datetime \<Rightarrow> exn option \<Rightarrow> string \<Rightarrow> link option \<times> world" where
  "validate_link w now fault lid =
     (case find_one fault (\<lambda>l. link_id l = lid \<and> now < expires_at l \<and> used l = False)
             (assessment_links w) of
        Inr found \<Rightarrow> (found, w)
      | Inl e \<Rightarrow> (None, st_error ''Error validating assessment link: '' e w))"

definition mark_link_used :: "world \<Rightarrow> exn option \<Rightarrow> string \<Rightarrow> bool \<times> world" where
  "mark_link_used w fault lid =
     (case update_one fault (\<lambda>l. link_id l = lid) (\<lambda>l. l\<lparr>used := True\<rparr>)
             (assessment_links w) of
        Inr coll \<Rightarrow> (True, w\<lparr>assessment_links := coll\<rparr>)
      | Inl e \<Rightarrow> (False, st_error ''Error marking link as used: '' e w))"

section \<open>Assessment record store\<close>

text \<open>
  \<open>Assessment.save_assessment\<close> and \<open>Assessment.get_assessment_by_id\<close> (lines 459-471
  and 487-488). The fresh \<^verbatim>\<open>str(uuid.uuid4())\<close> and the text of the \<^verbatim>\<open>_id\<close> that the
  driver gives the inserted document are arguments. The lookup has no \<^verbatim>\<open>try\<close>: an
  exception of the store leaves it.
\<close>

definition save_assessment ::
  "world \<Rightarrow> datetime \<Rightarrow> string \<Rightarrow> string \<Rightarrow> exn option \<Rightarrow>
   assessment_data \<Rightarrow> string option \<times> world" where
  "save_assessment w now uuid4 inserted_id fault assessment_data =
     (case int_of_value (age (patient_info assessment_data)) of
        Inl e \<Rightarrow> (None, st_error ''Error saving assessment: '' e w)
      | Inr n \<Rightarrow>
          (let doc = \<lparr>object_id = inserted_id, assessment_id = uuid4,
                      assessment_created_at = now,
                      data = assessment_data
                        \<lparr>patient_info := (patient_info assessment_data)\<lparr>age := PyInt n\<rparr>\<rparr>\<rparr>
           in case insert_one fault bson_assessment [assessment_id, object_id]
                     (assessments w) doc of
                Inr coll \<Rightarrow> (Some inserted_id, w\<lparr>assessments := coll\<rparr>)
              | Inl e \<Rightarrow> (None, st_error ''Error saving assessment: '' e w)))"

definition get_assessment_by_id ::
  "world \<Rightarrow> exn option \<Rightarrow> string \<Rightarrow> exn + assessment option" where
  "get_assessment_by_id w fault aid =
     find_one fault (\<lambda>a. assessment_id a = aid) (assessments w)"

section \<open>Patient identifier generator\<close>

text \<open>
  \<open>generate_unique_patient_id\<close> (lines 90-110). \<open>patient_number\<close> is the body of its
  \<^verbatim>\<open>try\<close>: the piece of the identifier after the first \<^verbatim>\<open>-\<close>, read as an integer, with
  both caught exceptions as \<open>None\<close>.
\<close>

definition latest_assessment :: "world \<Rightarrow> exn option \<Rightarrow> string \<Rightarrow> exn + assessment option" where
  "latest_assessment w fault doctor =
     find_one_sorted_desc fault (\<lambda>a. assessment_doctor_id (data a) = doctor)
       (\<lambda>a. patient_id (patient_info (data a))) (assessments w)"

definition patient_number :: "string \<Rightarrow> int option" where
  "patient_number latest_id =
     (case py_index (py_split CHR ''-'' latest_id) 1 of
        Inl e \<Rightarrow> None
      | Inr piece \<Rightarrow> py_int piece)"

definition generate_unique_patient_id :: "world \<Rightarrow> exn option \<Rightarrow> string \<Rightarrow> exn + string" where
  "generate_unique_patient_id w fault doctor =
     (case latest_assessment w fault doctor of
        Inl e \<Rightarrow> Inl e
      | Inr latest \<Rightarrow>
          (let number =
                 (case latest of
                    Some a \<Rightarrow>
                      (case patient_number (patient_id (patient_info (data a))) of
                         Some n \<Rightarrow> n
                       | None \<Rightarrow> 0)
                  | None \<Rightarrow> 0);
               new_number = number + 1
           in Inr (''P'' @ take 4 doctor @ ''-'' @ format_04d new_number)))"

section \<open>Histories of calls\<close>

text \<open>
  A history is a list of calls that change or read the collections, each with what the
  environment supplies to it; \<open>run\<close> performs them in order. A call that raises leaves
  the world as it was.
\<close>

datatype call =
  CreateLink datetime string "exn option" string int "string option" "string option"
| ValidateLink datetime "exn option" string
| MarkLinkUsed "exn option" string
| SaveAssessment datetime string string "exn option" assessment_data

fun step :: "world \<Rightarrow> call \<Rightarrow> world" where
  "step w (CreateLink now uuid4 fault doctor expiry_days p_email p_name) =
     (case create_link w now uuid4 fault doctor expiry_days p_email p_name of
        Inl e \<Rightarrow> w
      | Inr (r, w') \<Rightarrow> w')"
| "step w (ValidateLink now fault lid) = snd (validate_link w now fault lid)"
| "step w (MarkLinkUsed fault lid) = snd (mark_link_used w fault lid)"
| "step w (SaveAssessment now uuid4 inserted_id fault d) =
     snd (save_assessment w now uuid4 inserted_id fault d)"

definition run :: "world \<Rightarrow> call list \<Rightarrow> world" where
  "run w calls = foldl step w calls"

definition unique_link_ids :: "world \<Rightarrow> bool" where
  "unique_link_ids w = distinct (map link_id (assessment_links w))"

text \<open>
  The collection keeps \<^verbatim>\<open>link_id\<close> unique (\<open>unique_link_ids\<close>). A link identifier is
  dead at time \<open>t\<close> when the collection holds a link with it and every link with it is
  used or has expired by \<open>t\<close>.
\<close>

definition link_dead :: "string \<Rightarrow> datetime \<Rightarrow> world \<Rightarrow> bool" where
  "link_dead lid t w =
     ((\<exists>l\<in>set (assessment_links w). link_id l = lid) \<and>
      (\<forall>l\<in>set (assessment_links w). link_id l = lid \<longrightarrow> used l \<or> expires_at l \<le> t))"


section \<open>Sample documents\<close>

text \<open>
  A dictionary as the form assembles it, for a given clinician, patient identifier and
  age, and the world that holds it as its only stored assessment. The worked examples
  below use them.
\<close>

definition sample_data :: "string \<Rightarrow> string \<Rightarrow> py_value \<Rightarrow> assessment_data" where
  "sample_data doctor pid age_value =
     \<lparr>patient_info =
        \<lparr>name = ''Asha Rao'', age = age_value, gender = ''Female'', language = ''English'',
         education = ''Graduation'', email = ''a@b.com'', clinic = ''City Clinic'',
         patient_id = pid, medication = ''No''\<rparr>,
      audio_files = [(''animals'', ''1AbCdEfG'')],
      phq9_assessment =
        \<lparr>phq9_answers = [0, 1, 0, 1, 0, 1, 0, 1, 0], phq9_score = 4,
         phq9_severity = ''None-minimal'', phq9_action = ''None''\<rparr>,
      gad7_assessment =
        \<lparr>gad7_answers = [0, 0, 0, 0, 0, 0, 0], gad7_score = 0,
         gad7_severity = ''Minimal anxiety''\<rparr>,
      assessment_doctor_id = doctor\<rparr>"

definition sample_world :: "string \<Rightarrow> string \<Rightarrow> world" where
  "sample_world doctor pid =
     \<lparr>assessment_links = [],
      assessments =
        [\<lparr>object_id = ''66c0aa11bb22cc33dd44ee55'',
          assessment_id = ''9b2e4c1a-7d3f-4e21-a5b6-0c1d2e3f4a5b'',
          assessment_created_at = 63000000000000000,
          data = sample_data doctor pid (PyInt 34)\<rparr>],
      st_errors = []\<rparr>"

section \<open>Properties of the scoring engine\<close>

lemma foldl_plus_sum_list: "foldl (+) a xs = a + sum_list (xs :: int list)"
  by (induction xs arbitrary: a) simp_all

lemma py_sum_sum_list: "py_sum xs = sum_list xs"
  by (simp add: py_sum_def foldl_plus_sum_list)

lemma sum_list_lower: "\<forall>a\<in>set xs. (0::int) \<le> a \<Longrightarrow> 0 \<le> sum_list xs"
  by (induction xs) simp_all

lemma sum_list_upper: "\<forall>a\<in>set xs. a \<le> (3::int) \<Longrightarrow> sum_list xs \<le> 3 * int (length xs)"
  by (induction xs) auto

text \<open>
  C1. For nine answers, each between 0 and 3, \<open>calculate_phq9_score\<close> returns the
  arithmetic sum of the answers, which lies between 0 and 27, together with the severity
  and the action of the first row of the table whose inclusive upper bound (4, 9, 14, 19,
  otherwise) the score does not exceed; so 4 and 5, 9 and 10, 14 and 15, 19 and 20 fall
  on different rows.
\<close>

theorem calculate_phq9_score_table:
  assumes "length answers = 9" and "\<forall>a\<in>set answers. 0 \<le> a \<and> a \<le> 3"
  shows "case calculate_phq9_score answers of (score, severity, action) \<Rightarrow>
           score = sum_list answers \<and> 0 \<le> score \<and> score \<le> 27 \<and>
           (score \<le> 4 \<longrightarrow> severity = ''None-minimal'' \<and> action = ''None'') \<and>
           (5 \<le> score \<and> score \<le> 9 \<longrightarrow> severity = ''Mild'' \<and>
              action = ''Watchful waiting; repeat PHQ-9 at follow-up'') \<and>
           (10 \<le> score \<and> score \<le> 14 \<longrightarrow> severity = ''Moderate'' \<and>
              action = ''Treatment plan, considering counseling, follow-up and/or pharmacotherapy'') \<and>
           (15 \<le> score \<and> score \<le> 19 \<longrightarrow> severity = ''Moderately Severe'' \<and>
              action = ''Active treatment with pharmacotherapy and/or psychotherapy'') \<and>
           (20 \<le> score \<and> score \<le> 27 \<longrightarrow> severity = ''Severe'' \<and>
              action = ''Immediate initiation of pharmacotherapy and expedited referral to mental health specialist'')"
proof -
  have lo: "0 \<le> sum_list answers"
    using assms(2) by (simp add: sum_list_lower)
  have "sum_list answers \<le> 3 * int (length answers)"
    using assms(2) by (simp add: sum_list_upper)
  then have hi: "sum_list answers \<le> 27"
    using assms(1) by simp
  show ?thesis
    using lo hi by (simp add: calculate_phq9_score_def py_sum_sum_list Let_def)
qed

theorem calculate_phq9_score_table_witness:
  "length [3, 3, 3, 3, 3, 3, 3, 3, 3 :: int] = 9 \<and>
   list_all (\<lambda>a. 0 \<le> a \<and> a \<le> 3) [3, 3, 3, 3, 3, 3, 3, 3, 3 :: int] \<and>
   calculate_phq9_score [3, 3, 3, 3, 3, 3, 3, 3, 3] =
     (27, ''Severe'',
      ''Immediate initiation of pharmacotherapy and expedited referral to mental health specialist'')"
  using calculate_phq9_score_table [of "[3, 3, 3, 3, 3, 3, 3, 3, 3]"]
  by (simp add: calculate_phq9_score_def py_sum_def)

text \<open>
  C4. For seven answers, each between 0 and 3, \<open>calculate_gad7_score\<close> returns the sum of
  the answers, which lies between 0 and 21, and the severity of the first row whose
  inclusive upper bound (4, 9, 14, otherwise) the score does not exceed; so 4 and 5,
  9 and 10, 14 and 15 fall on different rows.
\<close>

theorem calculate_gad7_score_table:
  assumes "length answers = 7" and "\<forall>a\<in>set answers. 0 \<le> a \<and> a \<le> 3"
  shows "case calculate_gad7_score answers of (score, severity) \<Rightarrow>
           score = sum_list answers \<and> 0 \<le> score \<and> score \<le> 21 \<and>
           (score \<le> 4 \<longrightarrow> severity = ''Minimal anxiety'') \<and>
           (5 \<le> score \<and> score \<le> 9 \<longrightarrow> severity = ''Mild anxiety'') \<and>
           (10 \<le> score \<and> score \<le> 14 \<longrightarrow> severity = ''Moderate anxiety'') \<and>
           (15 \<le> score \<and> score \<le> 21 \<longrightarrow> severity = ''Severe anxiety'')"
proof -
  have lo: "0 \<le> sum_list answers"
    using assms(2) by (simp add: sum_list_lower)
  have "sum_list answers \<le> 3 * int (length answers)"
    using assms(2) by (simp add: sum_list_upper)
  then have hi: "sum_list answers \<le> 21"
    using assms(1) by simp
  show ?thesis
    using lo hi by (simp add: calculate_gad7_score_def py_sum_sum_list Let_def)
qed

theorem calculate_gad7_score_table_witness:
  "length [0, 1, 2, 3, 3, 3, 3 :: int] = 7 \<and>
   list_all (\<lambda>a. 0 \<le> a \<and> a \<le> 3) [0, 1, 2, 3, 3, 3, 3 :: int] \<and>
   calculate_gad7_score [0, 1, 2, 3, 3, 3, 3] = (15, ''Severe anxiety'')"
  using calculate_gad7_score_table [of "[0, 1, 2, 3, 3, 3, 3]"]
  by (simp add: calculate_gad7_score_def py_sum_def)

text \<open>
  C9. Both scoring functions are defined on every list of integers and check neither its
  length nor the range of its items: the score is the plain sum, and the label is the row
  the sum falls into, the first row for every sum up to 4 (negative sums too) and the last
  row for every sum above the last bound. The empty list scores 0 on the first row.
\<close>

theorem scoring_total_no_validation:
  "fst (calculate_phq9_score answers) = sum_list answers \<and>
   fst (snd (calculate_phq9_score answers)) =
     (if sum_list answers \<le> 4 then ''None-minimal''
      else if sum_list answers \<le> 9 then ''Mild''
      else if sum_list answers \<le> 14 then ''Moderate''
      else if sum_list answers \<le> 19 then ''Moderately Severe''
      else ''Severe'') \<and>
   fst (calculate_gad7_score answers) = sum_list answers \<and>
   snd (calculate_gad7_score answers) =
     (if sum_list answers \<le> 4 then ''Minimal anxiety''
      else if sum_list answers \<le> 9 then ''Mild anxiety''
      else if sum_list answers \<le> 14 then ''Moderate anxiety''
      else ''Severe anxiety'') \<and>
   calculate_phq9_score [] = (0, ''None-minimal'', ''None'') \<and>
   calculate_gad7_score [] = (0, ''Minimal anxiety'')"
  by (simp add: calculate_phq9_score_def calculate_gad7_score_def py_sum_sum_list Let_def)

theorem scoring_total_no_validation_witness:
  "calculate_phq9_score [10, 10, 10] =
     (30, ''Severe'',
      ''Immediate initiation of pharmacotherapy and expedited referral to mental health specialist'') \<and>
   calculate_phq9_score [- 7] = (- 7, ''None-minimal'', ''None'') \<and>
   calculate_gad7_score [4, 4, 4, 4, 4, 4, 4, 4] = (32, ''Severe anxiety'') \<and>
   calculate_gad7_score [- 1] = (- 1, ''Minimal anxiety'')"
  using scoring_total_no_validation [of "[10, 10, 10]"] scoring_total_no_validation [of "[- 7]"]
    scoring_total_no_validation [of "[4, 4, 4, 4, 4, 4, 4, 4]"]
    scoring_total_no_validation [of "[- 1]"]
  by (simp add: calculate_phq9_score_def calculate_gad7_score_def py_sum_def)

section \<open>Properties of the assessment link manager\<close>

subsection \<open>The store's operations on lists\<close>

lemma find_unique_key:
  assumes "distinct (map f xs)" and "x \<in> set xs" and "P x" and "\<forall>y. P y \<longrightarrow> f y = k"
  shows "List.find P xs = Some x"
  using assms(1,2)
proof (induction xs)
  case Nil
  then show ?case by simp
next
  case (Cons a xs)
  show ?case
  proof (cases "P a")
    case True
    then have fa: "f a = k" using assms(4) by blast
    have fx: "f x = k" using assms(3,4) by blast
    have "a = x"
    proof (rule ccontr)
      assume "a \<noteq> x"
      then have "x \<in> set xs" using Cons.prems(2) by auto
      then have "f x \<in> f ` set xs" by (rule imageI)
      moreover have "f a \<notin> f ` set xs" using Cons.prems(1) by simp
      ultimately show False using fa fx by simp
    qed
    then show ?thesis using True by simp
  next
    case False
    then have "x \<in> set xs" using Cons.prems(2) assms(3) by auto
    moreover have "distinct (map f xs)" using Cons.prems(1) by simp
    ultimately have "List.find P xs = Some x" by (rule Cons.IH [rotated])
    then show ?thesis using False by simp
  qed
qed

lemma update_first_no_match: "\<forall>x\<in>set xs. \<not> q x \<Longrightarrow> update_first q u xs = xs"
  by (induction xs) simp_all

lemma map_update_first: "(\<And>x. f (u x) = f x) \<Longrightarrow> map f (update_first q u xs) = map f xs"
  by (induction xs) simp_all

lemma ex_key_update_first:
  "(\<And>x. f (u x) = f x) \<Longrightarrow>
   (\<exists>y\<in>set (update_first q u xs). f y = k) = (\<exists>y\<in>set xs. f y = k)"
  by (induction xs) auto

lemma set_update_first:
  "y \<in> set (update_first q u xs) \<Longrightarrow> y \<in> set xs \<or> (\<exists>x\<in>set xs. q x \<and> y = u x)"
  by (induction xs) (auto split: if_splits)

lemma update_first_unique_key:
  "distinct (map f xs) \<Longrightarrow> (\<And>x. f (u x) = f x) \<Longrightarrow> y \<in> set (update_first (\<lambda>x. f x = k) u xs) \<Longrightarrow>
   f y = k \<Longrightarrow> \<exists>x\<in>set xs. y = u x"
proof (induction xs)
  case Nil
  then show ?case by simp
next
  case (Cons a xs)
  show ?case
  proof (cases "f a = k")
    case True
    then have "y = u a \<or> y \<in> set xs" using Cons.prems(3) by simp
    moreover have "y \<notin> set xs" using Cons.prems(1,4) True by force
    ultimately show ?thesis by simp
  next
    case False
    then have "y \<in> set (update_first (\<lambda>x. f x = k) u xs)"
      using Cons.prems(3,4) by auto
    then show ?thesis using Cons by auto
  qed
qed

lemma validate_link_ok: "validate_link w now None lid =
  (List.find (\<lambda>l. link_id l = lid \<and> now < expires_at l \<and> used l = False) (assessment_links w), w)"
  by (simp add: validate_link_def find_one_def)

lemma validate_link_fault: "validate_link w now (Some e) lid =
  (None, st_error ''Error validating assessment link: '' e w)"
  by (simp add: validate_link_def find_one_def)

lemma fst_validate_link_Some:
  "fst (validate_link w now fault lid) = Some l \<Longrightarrow>
   l \<in> set (assessment_links w) \<and> link_id l = lid \<and> \<not> used l \<and> now < expires_at l"
  by (cases fault) (auto simp: validate_link_ok validate_link_fault find_Some_iff)

lemma mark_link_used_ok: "mark_link_used w None lid =
  (True, w\<lparr>assessment_links := update_first (\<lambda>l. link_id l = lid) (\<lambda>l. l\<lparr>used := True\<rparr>) (assessment_links w)\<rparr>)"
  by (simp add: mark_link_used_def update_one_def)

lemma mark_link_used_fault: "mark_link_used w (Some e) lid =
  (False, st_error ''Error marking link as used: '' e w)"
  by (simp add: mark_link_used_def update_one_def)

lemma links_st_error [simp]: "assessment_links (st_error m e w) = assessment_links w"
  by (simp add: st_error_def)

lemma assessments_st_error [simp]: "assessments (st_error m e w) = assessments w"
  by (simp add: st_error_def)

lemma bson_datetime_aligned: "bson_datetime t mod 1000 = 0"
  by (simp add: bson_datetime_def minus_mod_eq_mult_div)

lemma bson_datetime_bounds: "bson_datetime t \<le> t \<and> t < bson_datetime t + 1000"
  using pos_mod_bound [of 1000 t] pos_mod_sign [of 1000 t]
  by (simp add: bson_datetime_def)

lemma bson_datetime_less_aligned:
  assumes "expires mod 1000 = 0"
  shows "bson_datetime now < expires \<longleftrightarrow> now < expires"
proof
  assume "now < expires"
  then show "bson_datetime now < expires"
    using bson_datetime_bounds [of now] by simp
next
  assume lt: "bson_datetime now < expires"
  obtain k where k: "expires = 1000 * k"
    using assms by (auto simp: mod_eq_0_iff_dvd elim: dvdE)
  have q: "bson_datetime now = 1000 * (now div 1000)"
    by (simp add: bson_datetime_def minus_mod_eq_mult_div)
  have "now div 1000 < k" using lt by (simp add: q k)
  then have "now div 1000 + 1 \<le> k" by simp
  then have "1000 * (now div 1000 + 1) \<le> 1000 * k" by simp
  then have "bson_datetime now + 1000 \<le> expires" by (simp add: q k algebra_simps)
  then show "now < expires"
    using bson_datetime_bounds [of now] by simp
qed

lemma insert_one_link:
  "insert_one fault bson_link [link_id] coll l = Inr coll' \<Longrightarrow>
   fault = None \<and> link_id l \<notin> set (map link_id coll) \<and>
   coll' = coll @ [l\<lparr>created_at := bson_datetime (created_at l),
                       expires_at := bson_datetime (expires_at l)\<rparr>]"
  by (cases fault) (auto simp: insert_one_def bson_link_def split: if_splits)

lemma insert_one_fault: "insert_one (Some e) bson_link keys coll l = Inl e"
  by (simp add: insert_one_def bson_link_def)

lemma create_link_links:
  "create_link w now uuid4 fault doctor days pe pn = Inr (r, w') \<Longrightarrow>
   assessment_links w' = assessment_links w \<or>
   (\<exists>l. assessment_links w' = assessment_links w @ [l] \<and> link_id l = uuid4 \<and>
        expires_at l mod 1000 = 0 \<and>
        uuid4 \<notin> set (map link_id (assessment_links w)))"
proof -
  assume c: "create_link w now uuid4 fault doctor days pe pn = Inr (r, w')"
  then obtain delta expires where td: "timedelta_days days = Inr delta"
    and add: "datetime_add now delta = Inr expires"
    by (auto simp: create_link_def split: sum.splits)
  let ?l = "\<lparr>link_id = uuid4, doctor_id = doctor, created_at = now, expires_at = expires,
             used = False, patient_email = pe, patient_name = pn\<rparr>"
  show ?thesis
  proof (cases "insert_one fault bson_link [link_id] (assessment_links w) ?l")
    case (Inl e)
    then show ?thesis using c td add by (auto simp: create_link_def Let_def)
  next
    case (Inr coll)
    from insert_one_link [OF Inr] have "assessment_links w' = assessment_links w @
        [?l\<lparr>created_at := bson_datetime (created_at ?l),
            expires_at := bson_datetime (expires_at ?l)\<rparr>]"
      and "uuid4 \<notin> set (map link_id (assessment_links w))"
      using c td add Inr by (auto simp: create_link_def Let_def)
    then show ?thesis by (auto simp: bson_datetime_aligned)
  qed
qed

lemma save_assessment_links [simp]:
  "assessment_links (snd (save_assessment w now u i fault d)) = assessment_links w"
  by (auto simp: save_assessment_def Let_def split: sum.splits)

lemma step_links:
  "assessment_links (step w c) = assessment_links w \<or>
   (\<exists>l. assessment_links (step w c) = assessment_links w @ [l] \<and>
        expires_at l mod 1000 = 0 \<and>
        link_id l \<notin> set (map link_id (assessment_links w))) \<or>
   (\<exists>lid. assessment_links (step w c) =
        update_first (\<lambda>l. link_id l = lid) (\<lambda>l. l\<lparr>used := True\<rparr>) (assessment_links w))"
proof (cases c)
  case (CreateLink now uuid4 fault doctor days pe pn)
  show ?thesis
  proof (cases "create_link w now uuid4 fault doctor days pe pn")
    case (Inl e)
    then show ?thesis using CreateLink by simp
  next
    case (Inr p)
    obtain r w' where p: "p = (r, w')" by (cases p)
    from create_link_links [OF Inr [unfolded p]] show ?thesis
      using CreateLink Inr p by auto
  qed
next
  case (ValidateLink now fault lid)
  then show ?thesis by (cases fault) (simp_all add: validate_link_ok validate_link_fault)
next
  case (MarkLinkUsed fault lid)
  then show ?thesis
    by (cases fault) (auto simp: mark_link_used_ok mark_link_used_fault)
next
  case (SaveAssessment now uuid4 i fault d)
  then show ?thesis by simp
qed

lemma step_unique_link_ids: "unique_link_ids w \<Longrightarrow> unique_link_ids (step w c)"
  using step_links [of w c]
  by (auto simp: unique_link_ids_def map_update_first)

lemma run_unique_link_ids: "unique_link_ids w \<Longrightarrow> unique_link_ids (run w calls)"
  unfolding run_def by (induction calls arbitrary: w) (simp_all add: step_unique_link_ids)

lemma init_unique_link_ids: "unique_link_ids init_world"
  by (simp add: unique_link_ids_def init_world_def)

lemma step_links_aligned:
  assumes "\<forall>l\<in>set (assessment_links w). expires_at l mod 1000 = 0"
  shows "\<forall>l\<in>set (assessment_links (step w c)). expires_at l mod 1000 = 0"
proof
  fix l assume l: "l \<in> set (assessment_links (step w c))"
  from step_links [of w c] consider
    (same) "assessment_links (step w c) = assessment_links w"
  | (new) x where "assessment_links (step w c) = assessment_links w @ [x]"
      "expires_at x mod 1000 = 0"
  | (upd) k where "assessment_links (step w c) =
        update_first (\<lambda>l. link_id l = k) (\<lambda>l. l\<lparr>used := True\<rparr>) (assessment_links w)"
    by auto
  then show "expires_at l mod 1000 = 0"
  proof cases
    case same
    then show ?thesis using assms l by simp
  next
    case new
    then show ?thesis using assms l by auto
  next
    case upd
    from set_update_first [OF l [unfolded upd]] show ?thesis
      using assms by auto
  qed
qed

lemma run_links_aligned:
  "\<forall>l\<in>set (assessment_links (run init_world calls)). expires_at l mod 1000 = 0"
proof -
  have "\<forall>l\<in>set (assessment_links w). expires_at l mod 1000 = 0 \<Longrightarrow>
      \<forall>l\<in>set (assessment_links (run w calls)). expires_at l mod 1000 = 0" for w
    unfolding run_def
  proof (induction calls arbitrary: w)
    case Nil
    then show ?case by simp
  next
    case (Cons c calls)
    from Cons.IH [OF step_links_aligned [OF Cons.prems, of c]] show ?case by simp
  qed
  from this [of init_world] show ?thesis by (simp add: init_world_def)
qed

lemma step_link_dead: "link_dead lid t w \<Longrightarrow> link_dead lid t (step w c)"
proof -
  assume d: "link_dead lid t w"
  from step_links [of w c] consider
    (same) "assessment_links (step w c) = assessment_links w"
  | (new) l where "assessment_links (step w c) = assessment_links w @ [l]"
      "expires_at l mod 1000 = 0"
      "link_id l \<notin> set (map link_id (assessment_links w))"
  | (upd) k where "assessment_links (step w c) =
        update_first (\<lambda>l. link_id l = k) (\<lambda>l. l\<lparr>used := True\<rparr>) (assessment_links w)"
    by auto
  then show ?thesis
  proof cases
    case same
    then show ?thesis using d by (simp add: link_dead_def)
  next
    case new
    then show ?thesis using d by (auto simp: link_dead_def)
  next
    case upd
    have ex: "\<exists>l\<in>set (assessment_links (step w c)). link_id l = lid"
      using d upd by (simp add: link_dead_def ex_key_update_first)
    have all: "\<forall>l\<in>set (assessment_links (step w c)). link_id l = lid \<longrightarrow> used l \<or> expires_at l \<le> t"
    proof (intro ballI impI)
      fix l assume l: "l \<in> set (assessment_links (step w c))" and "link_id l = lid"
      from set_update_first [OF l [unfolded upd]]
      show "used l \<or> expires_at l \<le> t"
        using d \<open>link_id l = lid\<close> by (auto simp: link_dead_def)
    qed
    from ex all show ?thesis by (simp add: link_dead_def)
  qed
qed

lemma run_link_dead: "link_dead lid t w \<Longrightarrow> link_dead lid t (run w calls)"
  unfolding run_def by (induction calls arbitrary: w) (simp_all add: step_link_dead)

lemma validate_link_dead:
  "link_dead lid t w \<Longrightarrow> t \<le> now \<Longrightarrow> fst (validate_link w now fault lid) = None"
proof (rule ccontr)
  assume d: "link_dead lid t w" and t: "t \<le> now"
    and "fst (validate_link w now fault lid) \<noteq> None"
  then obtain l where "fst (validate_link w now fault lid) = Some l" by auto
  from fst_validate_link_Some [OF this] show False
    using d t by (auto simp: link_dead_def)
qed

lemma mark_link_used_dead:
  assumes "unique_link_ids w" and "l \<in> set (assessment_links w)"
    and "mark_link_used w fault (link_id l) = (True, w')"
  shows "link_dead (link_id l) t w'"
proof -
  have f: "fault = None"
    using assms(3) by (cases fault) (simp_all add: mark_link_used_fault)
  then have w': "assessment_links w' =
      update_first (\<lambda>x. link_id x = link_id l) (\<lambda>l. l\<lparr>used := True\<rparr>) (assessment_links w)"
    using assms(3) by (auto simp: mark_link_used_ok)
  have ex: "\<exists>x\<in>set (assessment_links w'). link_id x = link_id l"
    using assms(2) w' by (auto simp: ex_key_update_first)
  have all: "\<forall>x\<in>set (assessment_links w'). link_id x = link_id l \<longrightarrow> used x"
  proof (intro ballI impI)
    fix x assume x: "x \<in> set (assessment_links w')" and k: "link_id x = link_id l"
    have "distinct (map link_id (assessment_links w))"
      using assms(1) by (simp add: unique_link_ids_def)
    moreover have "\<And>y. link_id (y\<lparr>used := True\<rparr>) = link_id y" by simp
    moreover have "x \<in> set (update_first (\<lambda>x. link_id x = link_id l) (\<lambda>l. l\<lparr>used := True\<rparr>)
        (assessment_links w))"
      using x w' by simp
    ultimately have "\<exists>y\<in>set (assessment_links w). x = y\<lparr>used := True\<rparr>"
      using k by (rule update_first_unique_key)
    then show "used x" by auto
  qed
  from ex all show ?thesis by (auto simp: link_dead_def)
qed

lemma validate_link_unique:
  assumes "unique_link_ids w" and "l \<in> set (assessment_links w)" and "link_id l = lid"
    and "\<not> used l" and "now < expires_at l"
  shows "fst (validate_link w now None lid) = Some l"
proof -
  have "distinct (map link_id (assessment_links w))"
    using assms(1) by (simp add: unique_link_ids_def)
  then have "List.find (\<lambda>x. link_id x = lid \<and> now < expires_at x \<and> used x = False)
      (assessment_links w) = Some l"
    using assms(2)
  proof (rule find_unique_key)
    show "link_id l = lid \<and> now < expires_at l \<and> used l = False"
      using assms(3,4,5) by simp
    show "\<forall>y. link_id y = lid \<and> now < expires_at y \<and> used y = False \<longrightarrow> link_id y = lid"
      by simp
  qed
  then show ?thesis by (simp add: validate_link_ok)
qed

lemma validate_link_none:
  "\<forall>x\<in>set (assessment_links w). link_id x = lid \<longrightarrow> used x \<or> expires_at x \<le> now \<Longrightarrow>
   fst (validate_link w now None lid) = None"
  by (auto simp: validate_link_ok find_None_iff)

lemma find_snoc_fresh:
  "\<forall>x\<in>set xs. \<not> P x \<Longrightarrow> P y \<Longrightarrow> List.find P (xs @ [y]) = Some y"
  by (induction xs) simp_all

lemma create_link_ok:
  assumes "1 \<le> expiry_days" and "datetime_in_range now"
    and "datetime_in_range (now + expiry_days * us_per_day)"
    and "uuid4 \<notin> set (map link_id (assessment_links w))"
  shows "create_link w now uuid4 None doctor expiry_days p_email p_name =
     Inr (Some uuid4, w\<lparr>assessment_links := assessment_links w @
       [\<lparr>link_id = uuid4, doctor_id = doctor, created_at = bson_datetime now,
         expires_at = bson_datetime (now + expiry_days * us_per_day), used = False,
         patient_email = p_email, patient_name = p_name\<rparr>]\<rparr>)"
proof -
  have "0 \<le> now" and "now + expiry_days * 86400000000 < 3652059 * 86400000000"
    using assms(2,3) by (simp_all add: datetime_in_range_def us_per_day_def)
  then have "expiry_days < 3652059"
    by arith
  then have td: "timedelta_days expiry_days = Inr (expiry_days * us_per_day)"
    using assms(1) by (simp add: timedelta_days_def)
  have add: "datetime_add now (expiry_days * us_per_day) = Inr (now + expiry_days * us_per_day)"
    using assms(3) by (simp add: datetime_add_def)
  show ?thesis
    using assms(4) by (simp add: create_link_def td add insert_one_def bson_link_def Let_def)
qed

lemma create_link_overflow:
  assumes "1 \<le> expiry_days" and "datetime_in_range now"
    and "\<not> datetime_in_range (now + expiry_days * us_per_day)"
  shows "create_link w now uuid4 fault doctor expiry_days p_email p_name = Inl OverflowError"
  using assms(3) by (simp add: create_link_def timedelta_days_def datetime_add_def)

lemma now_before_stored_expiry:
  "1 \<le> expiry_days \<Longrightarrow> now < bson_datetime (now + expiry_days * us_per_day)"
proof -
  assume "1 \<le> expiry_days"
  then have "now + 86400000000 \<le> now + expiry_days * us_per_day"
    by (simp add: us_per_day_def)
  moreover have "now + expiry_days * us_per_day < bson_datetime (now + expiry_days * us_per_day) + 1000"
    using bson_datetime_bounds by blast
  ultimately show ?thesis by arith
qed

subsection \<open>Claims about links\<close>

text \<open>
  C2. When the store serves the read and link identifiers are unique, \<open>validate_link\<close>
  returns a link exactly when that link is stored under the given identifier, is not
  used, and the current time is strictly before its \<open>expires_at\<close>. When every link with
  the identifier is used or expired, and so also when there is none, the result is the
  one value \<open>None\<close>; the world is left as it was, so nothing tells the three cases apart.
\<close>

theorem validate_link_iff:
  assumes "unique_link_ids w"
  shows "(fst (validate_link w now None lid) = Some l \<longleftrightarrow>
            l \<in> set (assessment_links w) \<and> link_id l = lid \<and> \<not> used l \<and> now < expires_at l) \<and>
         ((\<forall>x\<in>set (assessment_links w). link_id x = lid \<longrightarrow> used x \<or> expires_at x \<le> now) \<longrightarrow>
            fst (validate_link w now None lid) = None) \<and>
         snd (validate_link w now None lid) = w"
proof -
  have "fst (validate_link w now None lid) = Some l \<longleftrightarrow>
        l \<in> set (assessment_links w) \<and> link_id l = lid \<and> \<not> used l \<and> now < expires_at l"
    using fst_validate_link_Some [of w now None lid l] validate_link_unique [OF assms, of l lid now]
    by blast
  moreover have "snd (validate_link w now None lid) = w"
    by (simp add: validate_link_ok)
  ultimately show ?thesis
    using validate_link_none [of w lid now] by blast
qed

theorem validate_link_iff_witness:
  "unique_link_ids \<lparr>assessment_links = [\<lparr>link_id = ''3f0c2f0e'', doctor_id = ''66b1f0a2c3d4e5f601234567'',
        created_at = 63000000000000000, expires_at = 63000604800000000, used = False,
        patient_email = Some ''a@b.com'', patient_name = None\<rparr>], assessments = [], st_errors = []\<rparr> \<and>
   fst (validate_link \<lparr>assessment_links = [\<lparr>link_id = ''3f0c2f0e'', doctor_id = ''66b1f0a2c3d4e5f601234567'',
        created_at = 63000000000000000, expires_at = 63000604800000000, used = False,
        patient_email = Some ''a@b.com'', patient_name = None\<rparr>], assessments = [], st_errors = []\<rparr>
      63000000000000001 None ''3f0c2f0e'') =
     Some \<lparr>link_id = ''3f0c2f0e'', doctor_id = ''66b1f0a2c3d4e5f601234567'',
        created_at = 63000000000000000, expires_at = 63000604800000000, used = False,
        patient_email = Some ''a@b.com'', patient_name = None\<rparr> \<and>
   fst (validate_link \<lparr>assessment_links = [\<lparr>link_id = ''3f0c2f0e'', doctor_id = ''66b1f0a2c3d4e5f601234567'',
        created_at = 63000000000000000, expires_at = 63000604800000000, used = False,
        patient_email = Some ''a@b.com'', patient_name = None\<rparr>], assessments = [], st_errors = []\<rparr>
      63000604800000000 None ''3f0c2f0e'') = None \<and>
   fst (validate_link \<lparr>assessment_links = [\<lparr>link_id = ''3f0c2f0e'', doctor_id = ''66b1f0a2c3d4e5f601234567'',
        created_at = 63000000000000000, expires_at = 63000604800000000, used = False,
        patient_email = Some ''a@b.com'', patient_name = None\<rparr>], assessments = [], st_errors = []\<rparr>
      63000000000000001 None ''0a0a0a0a'') = None \<and>
   fst (validate_link \<lparr>assessment_links = [\<lparr>link_id = ''3f0c2f0e'', doctor_id = ''66b1f0a2c3d4e5f601234567'',
        created_at = 63000000000000000, expires_at = 63000604800000000, used = True,
        patient_email = Some ''a@b.com'', patient_name = None\<rparr>], assessments = [], st_errors = []\<rparr>
      63000000000000001 None ''3f0c2f0e'') = None"
  using validate_link_iff [of "\<lparr>assessment_links = [\<lparr>link_id = ''3f0c2f0e'', doctor_id = ''66b1f0a2c3d4e5f601234567'',
        created_at = 63000000000000000, expires_at = 63000604800000000, used = False,
        patient_email = Some ''a@b.com'', patient_name = None\<rparr>], assessments = [], st_errors = []\<rparr>"
      63000000000000001 "''3f0c2f0e''" "\<lparr>link_id = ''3f0c2f0e'', doctor_id = ''66b1f0a2c3d4e5f601234567'',
        created_at = 63000000000000000, expires_at = 63000604800000000, used = False,
        patient_email = Some ''a@b.com'', patient_name = None\<rparr>"]
    validate_link_iff [of "\<lparr>assessment_links = [\<lparr>link_id = ''3f0c2f0e'', doctor_id = ''66b1f0a2c3d4e5f601234567'',
        created_at = 63000000000000000, expires_at = 63000604800000000, used = False,
        patient_email = Some ''a@b.com'', patient_name = None\<rparr>], assessments = [], st_errors = []\<rparr>"
      63000604800000000 "''3f0c2f0e''"]
    validate_link_iff [of "\<lparr>assessment_links = [\<lparr>link_id = ''3f0c2f0e'', doctor_id = ''66b1f0a2c3d4e5f601234567'',
        created_at = 63000000000000000, expires_at = 63000604800000000, used = False,
        patient_email = Some ''a@b.com'', patient_name = None\<rparr>], assessments = [], st_errors = []\<rparr>"
      63000000000000001 "''0a0a0a0a''"]
    validate_link_iff [of "\<lparr>assessment_links = [\<lparr>link_id = ''3f0c2f0e'', doctor_id = ''66b1f0a2c3d4e5f601234567'',
        created_at = 63000000000000000, expires_at = 63000604800000000, used = True,
        patient_email = Some ''a@b.com'', patient_name = None\<rparr>], assessments = [], st_errors = []\<rparr>"
      63000000000000001 "''3f0c2f0e''"]
  by (simp add: unique_link_ids_def)

text \<open>
  C3. Take a stored link, identifiers being unique. Once \<open>mark_link_used\<close> has returned
  \<open>True\<close> for its identifier, \<open>validate_link\<close> returns \<open>None\<close> for that identifier after
  any further calls and at any time. Once the clock has reached its \<open>expires_at\<close>,
  \<open>validate_link\<close> returns \<open>None\<close> for that identifier at every later time, after any
  further calls.
\<close>

theorem link_never_valid_again:
  assumes "unique_link_ids w" and "l \<in> set (assessment_links w)"
  shows "(mark_link_used w fault (link_id l) = (True, w') \<longrightarrow>
            fst (validate_link (run w' calls) now fault' (link_id l)) = None) \<and>
         (expires_at l \<le> t \<and> t \<le> now \<longrightarrow>
            fst (validate_link (run w calls) now fault' (link_id l)) = None)"
proof (intro conjI impI)
  assume "mark_link_used w fault (link_id l) = (True, w')"
  from mark_link_used_dead [OF assms this, of now]
  have "link_dead (link_id l) now (run w' calls)" by (rule run_link_dead)
  then show "fst (validate_link (run w' calls) now fault' (link_id l)) = None"
    by (rule validate_link_dead) simp
next
  assume t: "expires_at l \<le> t \<and> t \<le> now"
  have inj: "inj_on link_id (set (assessment_links w))"
    using assms(1) by (simp add: unique_link_ids_def distinct_map)
  have "link_dead (link_id l) t w"
    unfolding link_dead_def
  proof (intro conjI ballI impI)
    show "\<exists>x\<in>set (assessment_links w). link_id x = link_id l" using assms(2) by auto
  next
    fix x assume "x \<in> set (assessment_links w)" and "link_id x = link_id l"
    with inj assms(2) have "x = l" by (auto dest: inj_onD)
    then show "used x \<or> expires_at x \<le> t" using t by simp
  qed
  then have "link_dead (link_id l) t (run w calls)" by (rule run_link_dead)
  then show "fst (validate_link (run w calls) now fault' (link_id l)) = None"
    using t validate_link_dead by blast
qed

theorem link_never_valid_again_witness:
  "unique_link_ids \<lparr>assessment_links = [\<lparr>link_id = ''3f0c2f0e'', doctor_id = ''66b1f0a2c3d4e5f601234567'',
        created_at = 63000000000000000, expires_at = 63000604800000000, used = False,
        patient_email = Some ''a@b.com'', patient_name = None\<rparr>], assessments = [], st_errors = []\<rparr> \<and>
   mark_link_used \<lparr>assessment_links = [\<lparr>link_id = ''3f0c2f0e'', doctor_id = ''66b1f0a2c3d4e5f601234567'',
        created_at = 63000000000000000, expires_at = 63000604800000000, used = False,
        patient_email = Some ''a@b.com'', patient_name = None\<rparr>], assessments = [], st_errors = []\<rparr> None ''3f0c2f0e'' =
     (True, \<lparr>assessment_links = [\<lparr>link_id = ''3f0c2f0e'', doctor_id = ''66b1f0a2c3d4e5f601234567'',
        created_at = 63000000000000000, expires_at = 63000604800000000, used = True,
        patient_email = Some ''a@b.com'', patient_name = None\<rparr>], assessments = [], st_errors = []\<rparr>) \<and>
   fst (validate_link
      (run \<lparr>assessment_links = [\<lparr>link_id = ''3f0c2f0e'', doctor_id = ''66b1f0a2c3d4e5f601234567'',
        created_at = 63000000000000000, expires_at = 63000604800000000, used = True,
        patient_email = Some ''a@b.com'', patient_name = None\<rparr>], assessments = [], st_errors = []\<rparr>
         [CreateLink 63000000000000002 ''3f0c2f0e'' None ''66b1f0a2c3d4e5f601234567'' 30 None None,
          MarkLinkUsed None ''3f0c2f0e'',
          ValidateLink 63000000000000003 None ''3f0c2f0e''])
      63000000000000004 None ''3f0c2f0e'') = None \<and>
   fst (validate_link
      (run \<lparr>assessment_links = [\<lparr>link_id = ''3f0c2f0e'', doctor_id = ''66b1f0a2c3d4e5f601234567'',
        created_at = 63000000000000000, expires_at = 63000604800000000, used = False,
        patient_email = Some ''a@b.com'', patient_name = None\<rparr>], assessments = [], st_errors = []\<rparr>
         [CreateLink 63000000000000002 ''3f0c2f0e'' None ''66b1f0a2c3d4e5f601234567'' 30 None None])
      63000604800000005 None ''3f0c2f0e'') = None"
  using link_never_valid_again [of "\<lparr>assessment_links = [\<lparr>link_id = ''3f0c2f0e'', doctor_id = ''66b1f0a2c3d4e5f601234567'',
        created_at = 63000000000000000, expires_at = 63000604800000000, used = False,
        patient_email = Some ''a@b.com'', patient_name = None\<rparr>], assessments = [], st_errors = []\<rparr>"
      "\<lparr>link_id = ''3f0c2f0e'', doctor_id = ''66b1f0a2c3d4e5f601234567'',
        created_at = 63000000000000000, expires_at = 63000604800000000, used = False,
        patient_email = Some ''a@b.com'', patient_name = None\<rparr>" None
      "\<lparr>assessment_links = [\<lparr>link_id = ''3f0c2f0e'', doctor_id = ''66b1f0a2c3d4e5f601234567'',
        created_at = 63000000000000000, expires_at = 63000604800000000, used = True,
        patient_email = Some ''a@b.com'', patient_name = None\<rparr>], assessments = [], st_errors = []\<rparr>"
      "[CreateLink 63000000000000002 ''3f0c2f0e'' None ''66b1f0a2c3d4e5f601234567'' 30 None None,
        MarkLinkUsed None ''3f0c2f0e'',
        ValidateLink 63000000000000003 None ''3f0c2f0e'']"
      63000000000000004 None]
    link_never_valid_again [of "\<lparr>assessment_links = [\<lparr>link_id = ''3f0c2f0e'', doctor_id = ''66b1f0a2c3d4e5f601234567'',
        created_at = 63000000000000000, expires_at = 63000604800000000, used = False,
        patient_email = Some ''a@b.com'', patient_name = None\<rparr>], assessments = [], st_errors = []\<rparr>"
      "\<lparr>link_id = ''3f0c2f0e'', doctor_id = ''66b1f0a2c3d4e5f601234567'',
        created_at = 63000000000000000, expires_at = 63000604800000000, used = False,
        patient_email = Some ''a@b.com'', patient_name = None\<rparr>" None
      "\<lparr>assessment_links = [\<lparr>link_id = ''3f0c2f0e'', doctor_id = ''66b1f0a2c3d4e5f601234567'',
        created_at = 63000000000000000, expires_at = 63000604800000000, used = True,
        patient_email = Some ''a@b.com'', patient_name = None\<rparr>], assessments = [], st_errors = []\<rparr>"
      "[CreateLink 63000000000000002 ''3f0c2f0e'' None ''66b1f0a2c3d4e5f601234567'' 30 None None]"
      63000604800000005 None 63000604800000000]
  by (simp add: unique_link_ids_def mark_link_used_ok)

text \<open>
  C5, as stated, fails: it holds for every \<open>expiry_days\<close> of at least 1 only while the
  expiry date can be written. The latest \<^verbatim>\<open>datetime\<close> is the end of year 9999, and
  3000000 days from a clock reading of today lie beyond it: \<open>create_link\<close> raises
  \<^verbatim>\<open>OverflowError\<close> before it calls the store and returns no identifier.
\<close>

theorem create_link_overflow_counterexample:
  "create_link init_world 63000000000000999 ''3f0c2f0e'' None
     ''66b1f0a2c3d4e5f601234567'' 3000000 (Some ''a@b.com'') None = Inl OverflowError"
  by (simp add: create_link_def timedelta_days_def datetime_add_def datetime_in_range_def
      us_per_day_def)

text \<open>
  C5, amended. Let \<open>expiry_days\<close> be at least 1 and the clock reading \<open>now\<close> be a
  \<^verbatim>\<open>datetime\<close>. If the expiry date \<open>now\<close> plus \<open>expiry_days\<close> days can be written, the store
  serves both calls and the new identifier is fresh, then \<open>create_link\<close> returns its
  identifier and stores the link with its dates in whole milliseconds, and
  \<open>validate_link\<close> with that identifier, at a time from the creation on and before the
  stored \<open>expires_at\<close>, with no call in between, returns that link: not used, and with
  the e-mail address given at creation. The time of creation itself is always before the
  stored \<open>expires_at\<close>. If the expiry date cannot be written, \<open>create_link\<close> raises
  \<^verbatim>\<open>OverflowError\<close>.
\<close>

theorem create_link_then_validate:
  assumes "1 \<le> expiry_days" and "datetime_in_range now"
  shows "(datetime_in_range (now + expiry_days * us_per_day) \<and>
          uuid4 \<notin> set (map link_id (assessment_links w)) \<and>
          now \<le> now' \<and> now' < bson_datetime (now + expiry_days * us_per_day) \<longrightarrow>
          (let l = \<lparr>link_id = uuid4, doctor_id = doctor, created_at = bson_datetime now,
         expires_at = bson_datetime (now + expiry_days * us_per_day), used = False,
         patient_email = p_email, patient_name = p_name\<rparr>;
               w' = w\<lparr>assessment_links := assessment_links w @ [l]\<rparr>
           in create_link w now uuid4 None doctor expiry_days p_email p_name =
                Inr (Some uuid4, w') \<and>
              validate_link w' now' None uuid4 = (Some l, w') \<and>
              used l = False \<and> patient_email l = p_email)) \<and>
         now < bson_datetime (now + expiry_days * us_per_day) \<and>
         (\<not> datetime_in_range (now + expiry_days * us_per_day) \<longrightarrow>
          create_link w now uuid4 fault doctor expiry_days p_email p_name = Inl OverflowError)"
proof (intro conjI impI)
  assume h: "datetime_in_range (now + expiry_days * us_per_day) \<and>
          uuid4 \<notin> set (map link_id (assessment_links w)) \<and>
          now \<le> now' \<and> now' < bson_datetime (now + expiry_days * us_per_day)"
  let ?l = "\<lparr>link_id = uuid4, doctor_id = doctor, created_at = bson_datetime now,
         expires_at = bson_datetime (now + expiry_days * us_per_day), used = False,
         patient_email = p_email, patient_name = p_name\<rparr>"
  let ?q = "\<lambda>x. link_id x = uuid4 \<and> now' < expires_at x \<and> used x = False"
  have "\<forall>x\<in>set (assessment_links w). \<not> ?q x"
    using h by auto
  moreover have "?q ?l" using h by simp
  ultimately have "List.find ?q (assessment_links w @ [?l]) = Some ?l"
    by (rule find_snoc_fresh)
  then have "validate_link (w\<lparr>assessment_links := assessment_links w @ [?l]\<rparr>) now' None uuid4 =
      (Some ?l, w\<lparr>assessment_links := assessment_links w @ [?l]\<rparr>)"
    by (simp add: validate_link_ok)
  moreover have "create_link w now uuid4 None doctor expiry_days p_email p_name =
      Inr (Some uuid4, w\<lparr>assessment_links := assessment_links w @ [?l]\<rparr>)"
    using assms h by (intro create_link_ok) simp_all
  ultimately show "let l = ?l; w' = w\<lparr>assessment_links := assessment_links w @ [l]\<rparr>
           in create_link w now uuid4 None doctor expiry_days p_email p_name =
                Inr (Some uuid4, w') \<and>
              validate_link w' now' None uuid4 = (Some l, w') \<and>
              used l = False \<and> patient_email l = p_email"
    by (simp add: Let_def)
next
  show "now < bson_datetime (now + expiry_days * us_per_day)"
    using assms(1) by (rule now_before_stored_expiry)
next
  assume "\<not> datetime_in_range (now + expiry_days * us_per_day)"
  with assms show "create_link w now uuid4 fault doctor expiry_days p_email p_name =
      Inl OverflowError"
    by (rule create_link_overflow)
qed

theorem create_link_then_validate_witness:
  "create_link init_world 63000000000000999 ''3f0c2f0e'' None
     ''66b1f0a2c3d4e5f601234567'' 7 (Some ''a@b.com'') None =
     Inr (Some ''3f0c2f0e'', \<lparr>assessment_links = [\<lparr>link_id = ''3f0c2f0e'', doctor_id = ''66b1f0a2c3d4e5f601234567'',
        created_at = 63000000000000000, expires_at = 63000604800000000, used = False,
        patient_email = Some ''a@b.com'', patient_name = None\<rparr>], assessments = [], st_errors = []\<rparr>) \<and>
   validate_link \<lparr>assessment_links = [\<lparr>link_id = ''3f0c2f0e'', doctor_id = ''66b1f0a2c3d4e5f601234567'',
        created_at = 63000000000000000, expires_at = 63000604800000000, used = False,
        patient_email = Some ''a@b.com'', patient_name = None\<rparr>], assessments = [], st_errors = []\<rparr>
     63000000000001500 None ''3f0c2f0e'' =
     (Some \<lparr>link_id = ''3f0c2f0e'', doctor_id = ''66b1f0a2c3d4e5f601234567'',
        created_at = 63000000000000000, expires_at = 63000604800000000, used = False,
        patient_email = Some ''a@b.com'', patient_name = None\<rparr>,
      \<lparr>assessment_links = [\<lparr>link_id = ''3f0c2f0e'', doctor_id = ''66b1f0a2c3d4e5f601234567'',
        created_at = 63000000000000000, expires_at = 63000604800000000, used = False,
        patient_email = Some ''a@b.com'', patient_name = None\<rparr>], assessments = [], st_errors = []\<rparr>) \<and>
   63000000000000999 < bson_datetime (63000000000000999 + 7 * us_per_day)"
  using create_link_then_validate [of 7 63000000000000999 "''3f0c2f0e''" init_world
      63000000000001500 "''66b1f0a2c3d4e5f601234567''" "Some ''a@b.com''" None None]
  by (simp add: init_world_def datetime_in_range_def us_per_day_def bson_datetime_def Let_def)

text \<open>
  C7, as stated, fails: there is no typed error. With a valid link stored, a failure of
  the store makes \<open>validate_link\<close> return \<open>None\<close>, the value it returns for an unknown
  identifier, and makes \<open>create_link\<close> return \<open>None\<close> in place of an identifier.
\<close>

theorem persistence_failure_counterexample:
  "fst (validate_link \<lparr>assessment_links = [\<lparr>link_id = ''3f0c2f0e'', doctor_id = ''66b1f0a2c3d4e5f601234567'',
        created_at = 63000000000000000, expires_at = 63000604800000000, used = False,
        patient_email = Some ''a@b.com'', patient_name = None\<rparr>], assessments = [], st_errors = []\<rparr>
      63000000000000001 None ''3f0c2f0e'') =
     Some \<lparr>link_id = ''3f0c2f0e'', doctor_id = ''66b1f0a2c3d4e5f601234567'',
        created_at = 63000000000000000, expires_at = 63000604800000000, used = False,
        patient_email = Some ''a@b.com'', patient_name = None\<rparr> \<and>
   fst (validate_link \<lparr>assessment_links = [\<lparr>link_id = ''3f0c2f0e'', doctor_id = ''66b1f0a2c3d4e5f601234567'',
        created_at = 63000000000000000, expires_at = 63000604800000000, used = False,
        patient_email = Some ''a@b.com'', patient_name = None\<rparr>], assessments = [], st_errors = []\<rparr>
      63000000000000001 (Some ConnectionFailure) ''3f0c2f0e'') = None \<and>
   fst (validate_link \<lparr>assessment_links = [\<lparr>link_id = ''3f0c2f0e'', doctor_id = ''66b1f0a2c3d4e5f601234567'',
        created_at = 63000000000000000, expires_at = 63000604800000000, used = False,
        patient_email = Some ''a@b.com'', patient_name = None\<rparr>], assessments = [], st_errors = []\<rparr>
      63000000000000001 None ''0a0a0a0a'') = None \<and>
   create_link init_world 63000000000000000 ''3f0c2f0e'' (Some ConnectionFailure)
     ''66b1f0a2c3d4e5f601234567'' 7 None None =
     Inr (None, \<lparr>assessment_links = [], assessments = [],
                   st_errors = [(''Error creating assessment link: '', ConnectionFailure)]\<rparr>)"
  by (simp add: validate_link_ok validate_link_fault create_link_def timedelta_days_def
      datetime_add_def datetime_in_range_def us_per_day_def insert_one_fault st_error_def
      init_world_def)

text \<open>
  C7, amended. When the store fails with an exception \<open>e\<close>, \<open>validate_link\<close> reports \<open>e\<close>
  through \<^verbatim>\<open>st.error\<close> and returns \<open>None\<close>, as for a link that is not found, and
  \<open>create_link\<close> reports \<open>e\<close> through \<^verbatim>\<open>st.error\<close> and returns \<open>None\<close> (unless the
  expiry date overflows, which raises before the store is called). Neither changes the
  stored links.
\<close>

theorem persistence_failure_reported:
  "validate_link w now (Some e) lid =
     (None, st_error ''Error validating assessment link: '' e w) \<and>
   assessment_links (st_error ''Error validating assessment link: '' e w) = assessment_links w \<and>
   create_link w now uuid4 (Some e) doctor expiry_days p_email p_name =
     (if 999999999 < \<bar>expiry_days\<bar> \<or> \<not> datetime_in_range (now + expiry_days * us_per_day)
      then Inl OverflowError
      else Inr (None, st_error ''Error creating assessment link: '' e w)) \<and>
   assessment_links (st_error ''Error creating assessment link: '' e w) = assessment_links w"
  by (simp add: validate_link_fault create_link_def timedelta_days_def datetime_add_def
      insert_one_fault Let_def)

theorem persistence_failure_reported_witness:
  "validate_link init_world 63000000000000001 (Some OperationFailure) ''3f0c2f0e'' =
     (None, \<lparr>assessment_links = [], assessments = [],
              st_errors = [(''Error validating assessment link: '', OperationFailure)]\<rparr>) \<and>
   create_link init_world 63000000000000001 ''3f0c2f0e'' (Some OperationFailure)
     ''66b1f0a2c3d4e5f601234567'' 7 None None =
     Inr (None, \<lparr>assessment_links = [], assessments = [],
                   st_errors = [(''Error creating assessment link: '', OperationFailure)]\<rparr>)"
  using persistence_failure_reported [of init_world 63000000000000001 OperationFailure
      "''3f0c2f0e''" "''3f0c2f0e''" "''66b1f0a2c3d4e5f601234567''" 7 None None]
  by (simp add: st_error_def init_world_def datetime_in_range_def us_per_day_def)

text \<open>
  C10. When the store serves the update, \<open>mark_link_used\<close> returns \<open>True\<close> whatever the
  identifier; when no stored link has the identifier, it returns \<open>True\<close> and the world is
  unchanged, so \<open>True\<close> does not tell that a link existed or became used.
\<close>

theorem mark_link_used_unknown:
  "fst (mark_link_used w None lid) = True \<and>
   ((\<forall>l\<in>set (assessment_links w). link_id l \<noteq> lid) \<longrightarrow> mark_link_used w None lid = (True, w))"
  by (simp add: mark_link_used_ok update_first_no_match)

theorem mark_link_used_unknown_witness:
  "assessment_links init_world = [] \<and>
   mark_link_used init_world None ''0a0a0a0a'' = (True, init_world)"
  using mark_link_used_unknown [of init_world "''0a0a0a0a''"]
  by (simp add: init_world_def)

section \<open>Properties of the assessment record store\<close>

lemma save_assessment_Some:
  assumes "save_assessment w now uuid4 inserted_id fault d = (Some r, w')"
  shows "\<exists>n. int_of_value (age (patient_info d)) = Inr n \<and> fault = None \<and> r = inserted_id \<and>
     uuid4 \<notin> set (map assessment_id (assessments w)) \<and>
     inserted_id \<notin> set (map object_id (assessments w)) \<and>
     w' = w\<lparr>assessments := assessments w @
       [\<lparr>object_id = inserted_id, assessment_id = uuid4, assessment_created_at = bson_datetime now,
         data = d\<lparr>patient_info := (patient_info d)\<lparr>age := PyInt n\<rparr>\<rparr>\<rparr>]\<rparr>"
proof (cases "int_of_value (age (patient_info d))")
  case (Inl e)
  then show ?thesis using assms by (simp add: save_assessment_def)
next
  case (Inr n)
  show ?thesis
  proof (cases fault)
    case None
    then show ?thesis
      using assms Inr
      by (auto simp: save_assessment_def insert_one_def bson_assessment_def Let_def
          split: if_splits)
  next
    case (Some e)
    then show ?thesis
      using assms Inr
      by (auto simp: save_assessment_def insert_one_def bson_assessment_def Let_def
          split: if_splits)
  qed
qed

lemma find_snoc_none:
  "\<forall>x\<in>set xs. \<not> P x \<Longrightarrow> \<not> P y \<Longrightarrow> List.find P (xs @ [y]) = None"
  by (induction xs) simp_all

lemma save_assessment_then_find:
  assumes "save_assessment w now uuid4 inserted_id fault d = (Some r, w')"
  shows "\<exists>n. int_of_value (age (patient_info d)) = Inr n \<and> r = inserted_id \<and>
     assessments w' = assessments w @
       [\<lparr>object_id = inserted_id, assessment_id = uuid4, assessment_created_at = bson_datetime now,
         data = d\<lparr>patient_info := (patient_info d)\<lparr>age := PyInt n\<rparr>\<rparr>\<rparr>] \<and>
     get_assessment_by_id w' None uuid4 =
       Inr (Some \<lparr>object_id = inserted_id, assessment_id = uuid4, assessment_created_at = bson_datetime now,
         data = d\<lparr>patient_info := (patient_info d)\<lparr>age := PyInt n\<rparr>\<rparr>\<rparr>) \<and>
     (inserted_id \<noteq> uuid4 \<and> inserted_id \<notin> set (map assessment_id (assessments w)) \<longrightarrow>
        get_assessment_by_id w' None r = Inr None)"
proof -
  from save_assessment_Some [OF assms] obtain n where
    n: "int_of_value (age (patient_info d)) = Inr n" and r: "r = inserted_id"
    and fresh: "uuid4 \<notin> set (map assessment_id (assessments w))"
    and w': "w' = w\<lparr>assessments := assessments w @
       [\<lparr>object_id = inserted_id, assessment_id = uuid4, assessment_created_at = bson_datetime now,
         data = d\<lparr>patient_info := (patient_info d)\<lparr>age := PyInt n\<rparr>\<rparr>\<rparr>]\<rparr>"
    by blast
  let ?doc = "\<lparr>object_id = inserted_id, assessment_id = uuid4, assessment_created_at = bson_datetime now,
         data = d\<lparr>patient_info := (patient_info d)\<lparr>age := PyInt n\<rparr>\<rparr>\<rparr>"
  have "\<forall>x\<in>set (assessments w). \<not> assessment_id x = uuid4"
    using fresh by auto
  then have "List.find (\<lambda>a. assessment_id a = uuid4) (assessments w @ [?doc]) = Some ?doc"
    by (rule find_snoc_fresh) simp
  then have found: "get_assessment_by_id w' None uuid4 = Inr (Some ?doc)"
    by (simp add: get_assessment_by_id_def find_one_def w')
  have missed: "get_assessment_by_id w' None r = Inr None"
    if "inserted_id \<noteq> uuid4 \<and> inserted_id \<notin> set (map assessment_id (assessments w))"
  proof -
    have "\<forall>x\<in>set (assessments w). \<not> assessment_id x = inserted_id"
      using that by auto
    then have "List.find (\<lambda>a. assessment_id a = inserted_id) (assessments w @ [?doc]) = None"
      by (rule find_snoc_none) (use that in auto)
    then show ?thesis
      by (simp add: get_assessment_by_id_def find_one_def w' r)
  qed
  show ?thesis
    using n r w' found missed by auto
qed

text \<open>
  C8 does not hold of the code. \<open>save_assessment\<close> sets \<open>assessment_id\<close> and the creation
  time and stores the age as an integer, but it returns the text of the \<^verbatim>\<open>_id\<close> that
  the driver gave the document, not the \<open>assessment_id\<close>. \<open>get_assessment_by_id\<close> looks
  the \<open>assessment_id\<close> up, so with the value that \<open>save_assessment\<close> returned it finds
  nothing, and with the \<open>assessment_id\<close> of the stored document it finds the document.
  An age given as text is stored as the integer it reads as.
\<close>

theorem save_assessment_returns_store_id:
  "save_assessment init_world 63000000000000000 ''9b2e4c1a-7d3f-4e21-a5b6-0c1d2e3f4a5b''
     ''66c0aa11bb22cc33dd44ee55'' None
     (sample_data ''66b1f0a2c3d4e5f601234567'' ''P66b1-0001'' (PyInt 34)) =
     (Some ''66c0aa11bb22cc33dd44ee55'',
      sample_world ''66b1f0a2c3d4e5f601234567'' ''P66b1-0001'') \<and>
   get_assessment_by_id (sample_world ''66b1f0a2c3d4e5f601234567'' ''P66b1-0001'') None
     ''66c0aa11bb22cc33dd44ee55'' = Inr None \<and>
   get_assessment_by_id (sample_world ''66b1f0a2c3d4e5f601234567'' ''P66b1-0001'') None
     ''9b2e4c1a-7d3f-4e21-a5b6-0c1d2e3f4a5b'' =
     Inr (Some \<lparr>object_id = ''66c0aa11bb22cc33dd44ee55'',
            assessment_id = ''9b2e4c1a-7d3f-4e21-a5b6-0c1d2e3f4a5b'',
            assessment_created_at = 63000000000000000,
            data = sample_data ''66b1f0a2c3d4e5f601234567'' ''P66b1-0001'' (PyInt 34)\<rparr>) \<and>
   save_assessment init_world 63000000000000000 ''9b2e4c1a-7d3f-4e21-a5b6-0c1d2e3f4a5b''
     ''66c0aa11bb22cc33dd44ee55'' None
     (sample_data ''66b1f0a2c3d4e5f601234567'' ''P66b1-0001'' (PyStr ''34'')) =
     (Some ''66c0aa11bb22cc33dd44ee55'',
      sample_world ''66b1f0a2c3d4e5f601234567'' ''P66b1-0001'')"
proof -
  have "py_int ''34'' = Some 34"
    by (simp add: py_int_def parse_digits_def int_max_str_digits_def py_strip_def
        is_py_space_def is_digit_def digit_val_def)
  then show ?thesis
    by (simp add: save_assessment_def insert_one_def bson_assessment_def bson_int_def
        bson_datetime_def get_assessment_by_id_def find_one_def
        sample_world_def sample_data_def init_world_def Let_def)
qed

section \<open>Properties of the patient identifier generator\<close>

subsection \<open>The greatest document\<close>






lemma latest_assessment_ok:
  "latest_assessment w None doctor =
     Inr (greatest_by (\<lambda>a. patient_id (patient_info (data a)))
            (filter (\<lambda>a. assessment_doctor_id (data a) = doctor) (assessments w)))"
  by (simp add: latest_assessment_def find_one_sorted_desc_def)



subsection \<open>Digits\<close>
























subsection \<open>Splitting\<close>

lemma py_split_not_Nil: "py_split sep s \<noteq> []"
  by (induction s) (simp_all split: list.splits)









subsection \<open>Evaluating on numerals\<close>








lemma format_04d_one: "format_04d 1 = ''0001''"
  by code_simp

lemma generate_unique_patient_id_ok:
  "generate_unique_patient_id w None doctor =
     Inr (''P'' @ take 4 doctor @ ''-'' @ format_04d
       ((case greatest_by (\<lambda>a. patient_id (patient_info (data a)))
               (filter (\<lambda>a. assessment_doctor_id (data a) = doctor) (assessments w)) of
           Some a \<Rightarrow> (case patient_number (patient_id (patient_info (data a))) of
                        Some n \<Rightarrow> n | None \<Rightarrow> 0)
         | None \<Rightarrow> 0) + 1))"
  by (simp add: generate_unique_patient_id_def latest_assessment_ok Let_def)



lemma generate_unique_patient_id_init:
  "generate_unique_patient_id init_world None doctor = Inr (''P'' @ take 4 doctor @ ''-0001'')"
  by (simp add: generate_unique_patient_id_ok greatest_by_def init_world_def format_04d_one)

subsection \<open>Claims about patient identifiers\<close>




end
